theory Spec2Isabelle
  imports Main "HOL-Library.Word"
begin

section \<open>Values of Go's empty interface and outcomes of a call\<close>

text \<open>
  The schema mappers receive \<^verbatim>\<open>[]interface{}\<close>: values whose dynamic type is only
  known at run time. A type assertion \<^verbatim>\<open>x.(T)\<close> without the comma-ok form panics when
  the dynamic type is not \<^verbatim>\<open>T\<close> (a missing map key yields the nil interface, on which
  every such assertion panics). A Go map has no duplicate keys; it is kept as an
  association list read with \<^const>\<open>map_of\<close>.
\<close>

datatype iface = VNil | VString string | VInt int | VBool bool | VMap "(string \<times> iface) list"

text \<open>A call either returns a value with a nil error, returns an error, or panics.\<close>

datatype ('e, 'a) outcome = Ok 'a | Err 'e | Panic

section \<open>Fabric schema mappers (package equinix)\<close>

subsection \<open>serviceTokenToFabric\<close>

text \<open>
  \<^verbatim>\<open>v4.ServiceToken\<close>, restricted to the two fields this function ever writes; every
  other field keeps its zero value on all paths. \<^verbatim>\<open>Type'\<close> is a pointer: \<open>None\<close> is nil.
\<close>

record ServiceToken =
  Type' :: "string option"
  Uuid :: string

definition emptyServiceToken :: ServiceToken where
  "emptyServiceToken = \<lparr>Type' = None, Uuid = ''''\<rparr>"

definition invalidServiceTokenType :: "string \<Rightarrow> string" where
  "invalidServiceTokenType stType =
     ''invalid service token type in config. Must be: VC_TOKEN; Received: '' @ stType"

text \<open>
  The body of the \<^verbatim>\<open>for ... range serviceTokenRequest\<close> loop, with \<open>mappedST\<close> as the
  loop-carried variable. The three type assertions are evaluated in source order:
  the element as a map, then \<^verbatim>\<open>stMap["type"]\<close> and \<^verbatim>\<open>stMap["uuid"]\<close> as strings.
\<close>

fun serviceTokenLoop :: "ServiceToken \<Rightarrow> iface list \<Rightarrow> (string, ServiceToken) outcome" where
  "serviceTokenLoop mappedST [] = Ok mappedST"
| "serviceTokenLoop mappedST (str # rest) =
     (case str of
        VMap stMap \<Rightarrow>
          (case map_of stMap ''type'' of
             Some (VString stType) \<Rightarrow>
               (case map_of stMap ''uuid'' of
                  Some (VString uuid) \<Rightarrow>
                    if stType \<noteq> '''' then
                      if stType \<noteq> ''VC_TOKEN'' then Err (invalidServiceTokenType stType)
                      else serviceTokenLoop \<lparr>Type' = Some stType, Uuid = uuid\<rparr> rest
                    else serviceTokenLoop \<lparr>Type' = None, Uuid = uuid\<rparr> rest
                | _ \<Rightarrow> Panic)
           | _ \<Rightarrow> Panic)
      | _ \<Rightarrow> Panic)"

definition serviceTokenToFabric :: "iface list \<Rightarrow> (string, ServiceToken) outcome" where
  "serviceTokenToFabric serviceTokenRequest = serviceTokenLoop emptyServiceToken serviceTokenRequest"

text \<open>
  The schema-typed view of one list element: its \<open>type\<close> and \<open>uuid\<close> strings, when the
  element is a map that carries both as strings (what the resource schema delivers).
\<close>

definition tokenFields :: "iface \<Rightarrow> (string \<times> string) option" where
  "tokenFields e =
     (case e of
        VMap m \<Rightarrow>
          (case (map_of m ''type'', map_of m ''uuid'') of
             (Some (VString t), Some (VString u)) \<Rightarrow> Some (t, u)
           | _ \<Rightarrow> None)
      | _ \<Rightarrow> None)"

definition elemType :: "iface \<Rightarrow> string" where
  "elemType e = (case tokenFields e of Some (t, u) \<Rightarrow> t | None \<Rightarrow> '''')"

definition tokenOf :: "iface \<Rightarrow> ServiceToken" where
  "tokenOf e =
     (case tokenFields e of
        Some (t, u) \<Rightarrow> \<lparr>Type' = (if t = '''' then None else Some t), Uuid = u\<rparr>
      | None \<Rightarrow> emptyServiceToken)"

definition wellTyped :: "iface list \<Rightarrow> bool" where
  "wellTyped xs = list_all (\<lambda>e. tokenFields e \<noteq> None) xs"

definition badType :: "iface \<Rightarrow> bool" where
  "badType e = (elemType e \<noteq> '''' \<and> elemType e \<noteq> ''VC_TOKEN'')"

subsection \<open>supportedBandwidthsToTerra\<close>

text \<open>
  The argument is a pointer to a slice of \<^verbatim>\<open>int32\<close> (\<open>None\<close> is the nil pointer); the
  result is a slice of interface values (\<open>None\<close> is the nil slice), each element either
  the nil interface (\<open>None\<close>) or an \<^verbatim>\<open>int\<close> obtained by sign extension.
  \<^verbatim>\<open>make([]interface{}, n)\<close> yields \<open>n\<close> nil interfaces, and the loop appends.
\<close>

fun appendBandwidths :: "int option list \<Rightarrow> 32 word list \<Rightarrow> int option list" where
  "appendBandwidths mapped [] = mapped"
| "appendBandwidths mapped (bandwidth # rest) =
     appendBandwidths (mapped @ [Some (sint bandwidth)]) rest"

definition supportedBandwidthsToTerra :: "32 word list option \<Rightarrow> int option list option" where
  "supportedBandwidthsToTerra supportedBandwidths =
     (case supportedBandwidths of
        None \<Rightarrow> None
      | Some bs \<Rightarrow> Some (appendBandwidths (replicate (length bs) None) bs))"

section \<open>Provider configuration (package config)\<close>

subsection \<open>Errors and contexts\<close>

text \<open>
  A \<^verbatim>\<open>context.Context\<close> is represented by what its \<^verbatim>\<open>Err()\<close> method returns: \<open>None\<close>
  while the context is live, otherwise one of the two context errors.
\<close>

datatype ctx_error = Canceled | DeadlineExceeded



subsection \<open>The regular expression redirectsErrorRe\<close>

text \<open>
  \<^verbatim>\<open>regexp.MustCompile(`stopped after \d+ redirects\z`)\<close>: \<^verbatim>\<open>MatchString\<close> holds when
  the text ends with \<^verbatim>\<open>stopped after \<close>, one or more ASCII digits, and \<^verbatim>\<open> redirects\<close>.
  The matcher below reads the text from its end; \<open>redirectsErrorRe_MatchString_iff\<close>
  shows that it decides exactly the language of the expression.
\<close>

definition isDigit :: "char \<Rightarrow> bool" where
  "isDigit c = (c \<in> set ''0123456789'')"

definition endsWith :: "string \<Rightarrow> string \<Rightarrow> bool" where
  "endsWith suf s = (length suf \<le> length s \<and> drop (length s - length suf) s = suf)"

definition dropEnd :: "nat \<Rightarrow> string \<Rightarrow> string" where
  "dropEnd n s = take (length s - n) s"

definition redirectsErrorRe_MatchString :: "string \<Rightarrow> bool" where
  "redirectsErrorRe_MatchString s =
     (endsWith '' redirects'' s \<and>
      (let s1 = dropEnd (length '' redirects'') s;
           ds = takeWhile isDigit (rev s1);
           s2 = rev (dropWhile isDigit (rev s1))
       in ds \<noteq> [] \<and> endsWith ''stopped after '' s2))"

subsection \<open>MetalRetryPolicy\<close>





subsection \<open>strings.TrimSpace\<close>

text \<open>
  Go strings are byte sequences holding UTF-8, and \<^verbatim>\<open>strings.TrimSpace\<close> removes from both
  ends every code point for which \<^verbatim>\<open>unicode.IsSpace\<close> holds. \<open>spaceRunes\<close> lists the
  UTF-8 encodings of those code points: tab to carriage return, space, U+0085, U+00A0,
  U+1680, U+2000 to U+200A, U+2028, U+2029, U+202F, U+205F and U+3000. Decoding the
  first (or last) code point of a text yields one of them exactly when the text starts
  (or ends) with its encoding.
\<close>

definition spaceRunes :: "string list" where
  "spaceRunes =
     [[CHR 0x09], [CHR 0x0A], [CHR 0x0B], [CHR 0x0C], [CHR 0x0D], [CHR 0x20],
      [CHR 0xC2, CHR 0x85], [CHR 0xC2, CHR 0xA0], [CHR 0xE1, CHR 0x9A, CHR 0x80]]
     @ map (\<lambda>b. [CHR 0xE2, CHR 0x80, b])
         [CHR 0x80, CHR 0x81, CHR 0x82, CHR 0x83, CHR 0x84, CHR 0x85, CHR 0x86, CHR 0x87,
          CHR 0x88, CHR 0x89, CHR 0x8A, CHR 0xA8, CHR 0xA9, CHR 0xAF]
     @ [[CHR 0xE2, CHR 0x81, CHR 0x9F], [CHR 0xE3, CHR 0x80, CHR 0x80]]"

text \<open>The length of the first encoding in \<open>ps\<close> that \<open>s\<close> starts with, or \<open>0\<close>.\<close>

fun leadingRune :: "string list \<Rightarrow> string \<Rightarrow> nat" where
  "leadingRune [] s = 0"
| "leadingRune (p # ps) s = (if take (length p) s = p then length p else leadingRune ps s)"

function trimLeading :: "string list \<Rightarrow> string \<Rightarrow> string" where
  "trimLeading ps s =
     (if leadingRune ps s = 0 then s else trimLeading ps (drop (leadingRune ps s) s))"
  by pat_completeness auto
termination
proof (relation "measure (\<lambda>(ps, s). length s)")
  show "wf (measure (\<lambda>(ps, s). length s))" by simp
next
  fix ps :: "string list" and s :: string
  assume nz: "leadingRune ps s \<noteq> 0"
  have "leadingRune ps s \<le> length s"
  proof (induction ps)
    case Nil
    show ?case by simp
  next
    case (Cons p ps)
    have "length p \<le> length s" if "take (length p) s = p"
    proof -
      from that have "length (take (length p) s) = length p" by simp
      then show ?thesis by simp
    qed
    with Cons show ?case by simp
  qed
  with nz show "((ps, drop (leadingRune ps s) s), (ps, s)) \<in> measure (\<lambda>(ps, s). length s)"
    by simp
qed

definition TrimSpace :: "string \<Rightarrow> string" where
  "TrimSpace s = rev (trimLeading (map rev spaceRunes) (rev (trimLeading spaceRunes s)))"

subsection \<open>The environment of the provider\<close>

text \<open>
  What the configuration code reads from outside this repository's sources: values of
  other packages, the process environment, and calls into vendor libraries whose result
  the code depends on.
\<close>

record URL =
  Host :: string
  Path :: string

record retry_client =
  LogName :: string
  RetryMax :: int
  RetryWaitMin :: int
  RetryWaitMax :: int

record packngo_client =
  pk_BaseURL :: string
  pk_ConsumerToken :: string
  pk_APIKey :: string
  pk_HTTPClient :: retry_client
  UserAgent :: string

record world =
  SDKVersionString :: string
  ProviderVersion :: string
  TF_APPEND_USER_AGENT :: string
  url_Parse :: "string \<Rightarrow> URL option"
  url_String :: "URL \<Rightarrow> string"
  path_Join :: "string \<Rightarrow> string \<Rightarrow> string"
  TokenSource_Token :: "string \<Rightarrow> string \<Rightarrow> string \<Rightarrow> string + string option"
  packngo_NewClientWithBaseURL ::
    "string \<Rightarrow> string \<Rightarrow> retry_client \<Rightarrow> string \<Rightarrow> packngo_client option"
  metalv1_UserAgent :: string
  correlationId :: "nat \<Rightarrow> string"

text \<open>
  \<^item> \<open>SDKVersionString\<close> is \<^verbatim>\<open>meta.SDKVersionString()\<close>, \<open>ProviderVersion\<close> is
    \<^verbatim>\<open>version.ProviderVersion\<close>, and \<open>TF_APPEND_USER_AGENT\<close> is what
    \<^verbatim>\<open>os.Getenv(uaEnvVar)\<close> returns (empty when the variable is unset).
  \<^item> \<open>url_Parse\<close> is \<^verbatim>\<open>url.Parse\<close>; \<open>None\<close> is the nil pointer it returns with an error.
  \<^item> \<open>TokenSource_Token\<close> is the token exchange for a client id, client secret and base
    URL: an error text, or the token pointer (\<open>None\<close> is nil) with its access token.
  \<^item> \<open>packngo_NewClientWithBaseURL\<close> returns \<open>None\<close> for the nil client that comes with
    an error.
  \<^item> \<open>metalv1_UserAgent\<close> is the user agent set by \<^verbatim>\<open>metalv1.NewConfiguration()\<close>.
\<close>

subsection \<open>Config and its client handles\<close>

datatype round_tripper =
    DefaultTransport
  | StaticTokenTransport string
  | ClientCredentialsTransport string string string
  | LoggingTransport string round_tripper

record http_client =
  Transport :: round_tripper
  Timeout :: int

record rest_client =
  rc_BaseURL :: string
  rc_HTTPClient :: http_client
  rc_PageSize :: "int option"
  rc_Headers :: "(string \<times> string) list"

record metalgo_client =
  mg_ServerURL :: string
  mg_HTTPClient :: retry_client
  mg_DefaultHeader :: "(string \<times> string) list"
  mg_UserAgent :: string

record fabric_client =
  BasePath :: string
  DefaultHeader :: "(string \<times> string) list"
  fc_UserAgent :: string
  HTTPClient :: http_client

text \<open>Durations are nanoseconds, as \<^verbatim>\<open>time.Duration\<close>; pointers to clients are options.\<close>

record Config =
  BaseURL :: string
  AuthToken :: string
  ClientID :: string
  ClientSecret :: string
  MaxRetries :: int
  MaxRetryWait :: int
  RequestTimeout :: int
  PageSize :: int
  Token :: string
  Ecx :: "rest_client option"
  Ne :: "rest_client option"
  Metal :: "packngo_client option"
  Metalgo :: "metalgo_client option"
  ecxUserAgent :: string
  neUserAgent :: string
  metalUserAgent :: string
  metalGoUserAgent :: string
  TerraformVersion :: string
  FabricClient :: "fabric_client option"
  FabricAuthToken :: string

definition consumerToken :: string where
  "consumerToken = ''aZ9GmqHTPtxevvFq9SK3Pi2yr9YCbRzduCSXF2SNem5sjB91mDq7Th3ZwTtRqMWZ''"

definition metalBasePath :: string where
  "metalBasePath = ''/metal/v1/''"

definition Second :: int where
  "Second = 1000000000"

subsection \<open>User agent strings\<close>

definition terraformUserAgent :: "world \<Rightarrow> string \<Rightarrow> string" where
  "terraformUserAgent w version =
     (let ua = ''HashiCorp Terraform/'' @ version
                 @ '' (+https://www.terraform.io) Terraform Plugin SDK/'' @ SDKVersionString w;
          add = TF_APPEND_USER_AGENT w
      in if add \<noteq> '''' then
           (let add = TrimSpace add
            in if length add > 0 then ua @ '' '' @ add else ua)
         else ua)"

definition fullUserAgent :: "world \<Rightarrow> Config \<Rightarrow> string \<Rightarrow> string" where
  "fullUserAgent w c suffix =
     (let tfUserAgent = terraformUserAgent w (TerraformVersion c);
          userAgent = tfUserAgent @ '' terraform-provider-equinix/'' @ ProviderVersion w
                        @ '' '' @ suffix
      in TrimSpace userAgent)"

text \<open>
  \<^verbatim>\<open>meta.Get(ctx, &m)\<close> yields diagnostics and fills \<^verbatim>\<open>ProviderMeta\<close>; the model receives
  whether the diagnostics hold an error, and the module name read.
\<close>

record ProviderMeta =
  ModuleName :: string

definition generateFwModuleUserAgentString :: "bool \<times> ProviderMeta \<Rightarrow> string \<Rightarrow> string" where
  "generateFwModuleUserAgentString metaGet baseUserAgent =
     (case metaGet of (diagsHasError, m) \<Rightarrow>
        if diagsHasError then baseUserAgent
        else if ModuleName m \<noteq> '''' then ModuleName m @ '' '' @ baseUserAgent
        else baseUserAgent)"

text \<open>
  The layers of the user agent string in the words of the specification, for comparison
  with \<open>fullUserAgent\<close>: the host-framework identity, the SDK identity, the provider
  version with the vendor-SDK suffix; \<open>joinSpace\<close> is \<^verbatim>\<open>strings.Join(_, " ")\<close>.
  \<open>appendedUserAgent\<close> is the layer taken from \<^verbatim>\<open>TF_APPEND_USER_AGENT\<close>, present only
  when that variable holds something other than white space.
\<close>

fun joinSpace :: "string list \<Rightarrow> string" where
  "joinSpace [] = ''''"
| "joinSpace [x] = x"
| "joinSpace (x # y # ys) = x @ '' '' @ joinSpace (y # ys)"







subsection \<open>A sample environment and configuration\<close>

text \<open>
  Concrete values on which the definitions are evaluated: an environment with a
  simple URL parser that rejects the text \<open>:\<close>, and the configuration built by
  \<^verbatim>\<open>Test_waitUntilReservationProvisionable\<close> (a base URL and a static token).
\<close>

definition sampleWorld :: world where
  "sampleWorld =
     \<lparr>SDKVersionString = ''2.26.1'',
      ProviderVersion = ''1.20.0'',
      TF_APPEND_USER_AGENT = '''',
      url_Parse = (\<lambda>s. if s = '':'' then None else Some \<lparr>Host = s, Path = ''''\<rparr>),
      url_String = (\<lambda>u. Host u @ Path u),
      path_Join = (\<lambda>a b. a @ ''/metal/v1''),
      TokenSource_Token = (\<lambda>i s u. Inr (Some ''exchanged'')),
      packngo_NewClientWithBaseURL =
        (\<lambda>ct key hc u. Some \<lparr>pk_BaseURL = u, pk_ConsumerToken = ct, pk_APIKey = key,
                                pk_HTTPClient = hc, UserAgent = ''packngo/0.30.0''\<rparr>),
      metalv1_UserAgent = ''metal-go/0.29.0'',
      correlationId = (\<lambda>n. replicate n CHR ''a'')\<rparr>"

definition sampleConfig :: Config where
  "sampleConfig =
     \<lparr>BaseURL = ''http://127.0.0.1:8080'', AuthToken = '''', ClientID = '''', ClientSecret = '''',
      MaxRetries = 0, MaxRetryWait = 0, RequestTimeout = 0, PageSize = 0,
      Token = ''fakeTokenForMock'',
      Ecx = None, Ne = None, Metal = None, Metalgo = None,
      ecxUserAgent = '''', neUserAgent = '''', metalUserAgent = '''', metalGoUserAgent = '''',
      TerraformVersion = ''1.5.0'', FabricClient = None, FabricAuthToken = ''''\<rparr>"

subsection \<open>Config.Load\<close>

text \<open>
  \<open>emptyCredentialsError\<close> is the raw string constant of the source, line by line. It holds
  no formatting verb, so \<^verbatim>\<open>fmt.Errorf(emptyCredentialsError)\<close> carries it unchanged.
\<close>

definition emptyCredentialsError :: string where
  "emptyCredentialsError = concat
     [''the provider needs to be configured with the proper credentials before it'', [CHR 0x0A],
      ''can be used.'', [CHR 0x0A],
      [CHR 0x0A],
      ''One of pair '', [CHR 0x22], ''client_id'', [CHR 0x22], '' - '', [CHR 0x22], ''client_secret'',
        [CHR 0x22], '' or '', [CHR 0x22], ''token'', [CHR 0x22], '' must be set in the provider'',
        [CHR 0x0A],
      ''configuration to interact with Equinix Fabric and Network Edge services, and'', [CHR 0x0A],
      [CHR 0x22], ''auth_token'', [CHR 0x22],
        '' to interact with Equinix Metal. These can also be configured using'', [CHR 0x0A],
      ''environment variables.'', [CHR 0x0A],
      [CHR 0x0A],
      ''Please note that while the authentication arguments are individually optional to allow'',
        [CHR 0x0A],
      ''interaction with the different services independently, trying to provision the resources'',
        [CHR 0x0A],
      ''of a service without the required credentials will return an API error referring to'',
        [CHR 0x0A],
      [CHR 0x27], ''Invalid authentication token'', [CHR 0x27], '' or '', [CHR 0x27],
        ''error when acquiring token'', [CHR 0x27], ''.'', [CHR 0x0A],
      [CHR 0x0A],
      ''More information on the provider configuration can be found here:'', [CHR 0x0A],
      ''https://registry.terraform.io/providers/equinix/equinix/latest/docs'']"

definition baseURLEmptyError :: string where
  "baseURLEmptyError = [CHR 0x27] @ ''baseURL'' @ [CHR 0x27] @ '' cannot be empty''"

text \<open>
  The errors \<^verbatim>\<open>Load\<close> returns: one it creates itself with \<^verbatim>\<open>fmt.Errorf\<close>, or the one
  handed back by the token exchange.
\<close>

datatype load_error = ConfigError string | TokenError string

definition requestTimeout :: "Config \<Rightarrow> int" where
  "requestTimeout c = (if RequestTimeout c = 0 then 5 * Second else RequestTimeout c)"

definition NewFabricClient :: "world \<Rightarrow> Config \<Rightarrow> fabric_client" where
  "NewFabricClient w c =
     (let transport = LoggingTransport ''Equinix Fabric'' DefaultTransport;
          authClient = \<lparr>Transport = transport, Timeout = requestTimeout c\<rparr>;
          fabricHeaderMap = [(''X-SOURCE'', ''API''), (''X-CORRELATION-ID'', correlationId w 25)]
      in \<lparr>BasePath = BaseURL c, DefaultHeader = fabricHeaderMap,
          fc_UserAgent = ''equinix/fabric-go'', HTTPClient = authClient\<rparr>)"

text \<open>
  The retrying HTTP client both Metal constructors build: the logging transport's name,
  \<^verbatim>\<open>RetryMax\<close>, \<^verbatim>\<open>RetryWaitMin\<close> and \<^verbatim>\<open>RetryWaitMax\<close>; its \<^verbatim>\<open>CheckRetry\<close> is always
  \<open>MetalRetryPolicy\<close>.
\<close>

definition metalRetryClient :: "string \<Rightarrow> Config \<Rightarrow> retry_client" where
  "metalRetryClient name c =
     \<lparr>LogName = name, RetryMax = MaxRetries c, RetryWaitMin = Second, RetryWaitMax = MaxRetryWait c\<rparr>"

text \<open>
  Both constructors drop the error of \<^verbatim>\<open>url.Parse\<close> and write to \<^verbatim>\<open>baseURL.Path\<close>: on a
  base URL that does not parse this dereferences nil. \<^verbatim>\<open>NewMetalClient\<close> also drops the
  error of the packngo constructor and writes to \<^verbatim>\<open>client.UserAgent\<close>. Each returns its
  client and the configuration with the user agent it recorded.
\<close>

definition NewMetalClient :: "world \<Rightarrow> Config \<Rightarrow> (load_error, packngo_client \<times> Config) outcome" where
  "NewMetalClient w c =
     (let standardClient = metalRetryClient ''Equinix Metal (packngo)'' c
      in case url_Parse w (BaseURL c) of
           None \<Rightarrow> Panic
         | Some baseURL \<Rightarrow>
             (let baseURL = baseURL\<lparr>Path := path_Join w (Path baseURL) metalBasePath @ ''/''\<rparr>
              in case packngo_NewClientWithBaseURL w consumerToken (AuthToken c) standardClient
                        (url_String w baseURL) of
                   None \<Rightarrow> Panic
                 | Some client \<Rightarrow>
                     (let client = client\<lparr>UserAgent := fullUserAgent w c (UserAgent client)\<rparr>;
                          c = c\<lparr>metalUserAgent := UserAgent client\<rparr>
                      in Ok (client, c))))"

definition NewMetalGoClient :: "world \<Rightarrow> Config \<Rightarrow> (load_error, metalgo_client \<times> Config) outcome" where
  "NewMetalGoClient w c =
     (let standardClient = metalRetryClient ''Equinix Metal (metal-go)'' c
      in case url_Parse w (BaseURL c) of
           None \<Rightarrow> Panic
         | Some baseURL \<Rightarrow>
             (let baseURL = baseURL\<lparr>Path := path_Join w (Path baseURL) metalBasePath @ ''/''\<rparr>;
                  client = \<lparr>mg_ServerURL = url_String w baseURL,
                            mg_HTTPClient = standardClient,
                            mg_DefaultHeader = [(''X-Auth-Token'', AuthToken c)],
                            mg_UserAgent = fullUserAgent w c (metalv1_UserAgent w)\<rparr>;
                  c = c\<lparr>metalGoUserAgent := mg_UserAgent client\<rparr>
              in Ok (client, c)))"

text \<open>
  The first half of \<^verbatim>\<open>Load\<close> after the two validations: the HTTP client that
  authenticates Fabric and Network Edge calls, and the token exchange when a client id
  and secret are both set.
\<close>

definition authenticate :: "world \<Rightarrow> Config \<Rightarrow> (load_error, http_client \<times> Config) outcome" where
  "authenticate w c =
     (if Token c \<noteq> '''' then
        Ok (\<lparr>Transport = StaticTokenTransport (Token c), Timeout = 0\<rparr>, c)
      else
        (let authClient = \<lparr>Transport = ClientCredentialsTransport (ClientID c) (ClientSecret c)
                                        (BaseURL c),
                           Timeout = 0\<rparr>
         in if ClientID c \<noteq> '''' \<and> ClientSecret c \<noteq> '''' then
              (case TokenSource_Token w (ClientID c) (ClientSecret c) (BaseURL c) of
                 Inl err \<Rightarrow> Err (TokenError err)
               | Inr tke \<Rightarrow>
                   (case tke of
                      Some accessToken \<Rightarrow> Ok (authClient, c\<lparr>FabricAuthToken := accessToken\<rparr>)
                    | None \<Rightarrow> Ok (authClient, c)))
            else Ok (authClient, c)))"

text \<open>The second half of \<^verbatim>\<open>Load\<close>: the five client handles, built in source order.\<close>

definition configureClients :: "world \<Rightarrow> http_client \<Rightarrow> Config \<Rightarrow> (load_error, Config) outcome" where
  "configureClients w authClient c =
     (let c = (if FabricAuthToken c = '''' then c\<lparr>FabricAuthToken := Token c\<rparr> else c);
          authClient = authClient\<lparr>Timeout := requestTimeout c\<rparr>;
          authClient = authClient\<lparr>Transport := LoggingTransport ''Equinix'' (Transport authClient)\<rparr>;
          pageSize = (if PageSize c > 0 then Some (PageSize c) else None);
          c = c\<lparr>ecxUserAgent := fullUserAgent w c ''equinix/ecx-go''\<rparr>;
          ecxClient = \<lparr>rc_BaseURL = BaseURL c, rc_HTTPClient = authClient, rc_PageSize = pageSize,
                       rc_Headers = [(''User-agent'', ecxUserAgent c)]\<rparr>;
          c = c\<lparr>neUserAgent := fullUserAgent w c ''equinix/ecx-go''\<rparr>;
          neClient = \<lparr>rc_BaseURL = BaseURL c, rc_HTTPClient = authClient, rc_PageSize = pageSize,
                      rc_Headers = [(''User-agent'', neUserAgent c)]\<rparr>;
          c = c\<lparr>Ecx := Some ecxClient\<rparr>;
          c = c\<lparr>Ne := Some neClient\<rparr>
      in case NewMetalClient w c of
           Panic \<Rightarrow> Panic
         | Err e \<Rightarrow> Err e
         | Ok (metal, c) \<Rightarrow>
             (let c = c\<lparr>Metal := Some metal\<rparr>
              in case NewMetalGoClient w c of
                   Panic \<Rightarrow> Panic
                 | Err e \<Rightarrow> Err e
                 | Ok (metalgo, c) \<Rightarrow>
                     (let c = c\<lparr>Metalgo := Some metalgo\<rparr>;
                          c = c\<lparr>FabricClient := Some (NewFabricClient w c)\<rparr>
                      in Ok c)))"

definition Load :: "world \<Rightarrow> Config \<Rightarrow> (load_error, Config) outcome" where
  "Load w c =
     (if BaseURL c = '''' then Err (ConfigError baseURLEmptyError)
      else if Token c = '''' \<and> (ClientID c = '''' \<or> ClientSecret c = '''') \<and> AuthToken c = ''''
        then Err (ConfigError emptyCredentialsError)
      else
        (case authenticate w c of
           Panic \<Rightarrow> Panic
         | Err e \<Rightarrow> Err e
         | Ok (authClient, c) \<Rightarrow> configureClients w authClient c))"


definition onlyStaticToken :: "Config \<Rightarrow> bool" where
  "onlyStaticToken c =
     (Token c \<noteq> '''' \<and> ClientID c = '''' \<and> ClientSecret c = '''' \<and> AuthToken c = '''')"



section \<open>The project SSH key resource (package project_ssh_key)\<close>

subsection \<open>Diagnostics, state and the vendor API\<close>

datatype severity = SeverityError | SeverityWarning

record diagnostic =
  Severity :: severity
  Summary :: string
  Detail :: string

definition HasError :: "diagnostic list \<Rightarrow> bool" where
  "HasError ds = list_ex (\<lambda>d. Severity d = SeverityError) ds"

definition AddError :: "string \<Rightarrow> string \<Rightarrow> diagnostic list \<Rightarrow> diagnostic list" where
  "AddError summary detail ds = ds @ [\<lparr>Severity = SeverityError, Summary = summary, Detail = detail\<rparr>]"

definition AddWarning :: "string \<Rightarrow> string \<Rightarrow> diagnostic list \<Rightarrow> diagnostic list" where
  "AddWarning summary detail ds = ds @ [\<lparr>Severity = SeverityWarning, Summary = summary, Detail = detail\<rparr>]"

text \<open>
  The fields of \<^verbatim>\<open>ResourceModel\<close> that the resource reads, as the strings their
  \<^verbatim>\<open>ValueString()\<close> returns; the Terraform state is either null (the resource is removed)
  or holds a value.
\<close>

record ResourceModel =
  ID :: string
  Name :: string
  PublicKey :: string
  ProjectID :: string

datatype tf_state = NullState | StateValue ResourceModel

record SSHKey =
  key_Id :: string
  key_Label :: string
  key_Key :: string

text \<open>An error of the vendor API, and the HTTP response that came with the call.\<close>

record api_error =
  err_Status :: int
  err_Text :: string

record http_response =
  StatusCode :: int

text \<open>
  What the resource calls outside the sources at hand: the error helpers of
  \<^verbatim>\<open>internal/errors\<close>, the model's \<^verbatim>\<open>parse\<close> method, the framework's decoding and
  encoding of the state, and the vendor API itself. \<open>FindSSHKeyById\<close> and
  \<open>DeleteSSHKey\<close> return what the Go calls return: a key pointer or a response, and an
  error (\<open>None\<close> is nil).
\<close>

record metal_api =
  FriendlyError :: "api_error \<Rightarrow> api_error"
  IsNotFound :: "api_error \<Rightarrow> bool"
  parse :: "ResourceModel \<Rightarrow> SSHKey option \<Rightarrow> diagnostic list \<times> ResourceModel"
  State_Get :: "tf_state \<Rightarrow> diagnostic list \<times> ResourceModel"
  State_Set :: "ResourceModel \<Rightarrow> tf_state \<Rightarrow> diagnostic list \<times> tf_state"
  FindSSHKeyById :: "string \<Rightarrow> SSHKey option \<times> api_error option"
  DeleteSSHKey :: "string \<Rightarrow> http_response option \<times> api_error option"

record Request =
  req_ProviderMeta :: "bool \<times> ProviderMeta"
  req_State :: tf_state

record Response =
  Diagnostics :: "diagnostic list"
  State :: tf_state

text \<open>
  \<^verbatim>\<open>AddFwModuleToMetalGoUserAgent\<close> writes through \<^verbatim>\<open>c.Metalgo\<close>; on a configuration whose
  Metal client was never built this dereferences nil (\<open>None\<close>).
\<close>

definition AddFwModuleToMetalGoUserAgent :: "bool \<times> ProviderMeta \<Rightarrow> Config \<Rightarrow> Config option" where
  "AddFwModuleToMetalGoUserAgent providerMeta c =
     (case Metalgo c of
        None \<Rightarrow> None
      | Some client \<Rightarrow>
          Some (c\<lparr>Metalgo := Some (client\<lparr>mg_UserAgent :=
                  generateFwModuleUserAgentString providerMeta (metalGoUserAgent c)\<rparr>)\<rparr>))"

subsection \<open>Resource.Read\<close>

text \<open>
  \<open>resp\<close> is the in-out response of the framework; the result is the response and the
  provider configuration as the call leaves them. After \<open>AddError\<close> the source does not
  return: it goes on to \<^verbatim>\<open>state.parse(key)\<close> with the key of the failed call and leaves
  at the next \<open>HasError\<close> test.
\<close>

definition Read :: "metal_api \<Rightarrow> Config \<Rightarrow> Request \<Rightarrow> Response \<Rightarrow> (unit, Response \<times> Config) outcome" where
  "Read api meta req resp =
     (case AddFwModuleToMetalGoUserAgent (req_ProviderMeta req) meta of
        None \<Rightarrow> Panic
      | Some meta \<Rightarrow>
          (case State_Get api (req_State req) of (ds, state) \<Rightarrow>
             (let resp = resp\<lparr>Diagnostics := Diagnostics resp @ ds\<rparr>
              in if HasError (Diagnostics resp) then Ok (resp, meta)
                 else
                   (let id = ID state
                    in case FindSSHKeyById api id of (key, err) \<Rightarrow>
                         (case (case err of
                                  Some e \<Rightarrow>
                                    (let e = FriendlyError api e
                                     in if IsNotFound api e then
                                          Inl (resp\<lparr>Diagnostics :=
                                                 AddWarning
                                                   ''Equinix Metal Project SSHKey not found during refresh''
                                                   (''[WARN] SSHKey ('' @ id @ '') not found, removing from state'')
                                                   (Diagnostics resp),
                                               State := NullState\<rparr>)
                                        else
                                          Inr (resp\<lparr>Diagnostics :=
                                                 AddError (''Failed to get Project SSHKey '' @ id)
                                                   (err_Text e) (Diagnostics resp)\<rparr>))
                                | None \<Rightarrow> Inr resp) of
                            Inl returned \<Rightarrow> Ok (returned, meta)
                          | Inr resp \<Rightarrow>
                              (case parse api state key of (ds, state) \<Rightarrow>
                                 (let resp = resp\<lparr>Diagnostics := Diagnostics resp @ ds\<rparr>
                                  in if HasError (Diagnostics resp) then Ok (resp, meta)
                                     else
                                       (case State_Set api state (State resp) of (ds, st) \<Rightarrow>
                                          Ok (resp\<lparr>Diagnostics := Diagnostics resp @ ds,
                                                   State := st\<rparr>, meta)))))))))"

subsection \<open>Resource.Delete\<close>





text \<open>
  A sample API for evaluating the two operations: the state decodes without
  diagnostics, \<open>FriendlyError\<close> keeps the error, and \<open>IsNotFound\<close> reads its status.
\<close>

definition sampleApi :: "SSHKey option \<times> api_error option \<Rightarrow> http_response option \<times> api_error option \<Rightarrow> metal_api" where
  "sampleApi found deleted =
     \<lparr>FriendlyError = (\<lambda>e. e),
      IsNotFound = (\<lambda>e. err_Status e = 404),
      parse = (\<lambda>m key. ([], case key of None \<Rightarrow> m
                               | Some k \<Rightarrow> m\<lparr>ID := key_Id k, Name := key_Label k, PublicKey := key_Key k\<rparr>)),
      State_Get = (\<lambda>s. case s of NullState \<Rightarrow> ([], \<lparr>ID = '''', Name = '''', PublicKey = '''', ProjectID = ''''\<rparr>)
                         | StateValue m \<Rightarrow> ([], m)),
      State_Set = (\<lambda>m s. ([], StateValue m)),
      FindSSHKeyById = (\<lambda>id. found),
      DeleteSSHKey = (\<lambda>id. deleted)\<rparr>"

definition sampleModel :: ResourceModel where
  "sampleModel = \<lparr>ID = ''key-1'', Name = ''laptop'', PublicKey = ''ssh-ed25519 AAAA'', ProjectID = ''p-1''\<rparr>"

definition sampleRequest :: Request where
  "sampleRequest = \<lparr>req_ProviderMeta = (False, \<lparr>ModuleName = ''''\<rparr>), req_State = StateValue sampleModel\<rparr>"

definition sampleResponse :: Response where
  "sampleResponse = \<lparr>Diagnostics = [], State = StateValue sampleModel\<rparr>"

definition loadedConfig :: Config where
  "loadedConfig =
     sampleConfig\<lparr>Metalgo := Some \<lparr>mg_ServerURL = ''http://127.0.0.1:8080/metal/v1/'',
                                    mg_HTTPClient = metalRetryClient ''Equinix Metal (metal-go)'' sampleConfig,
                                    mg_DefaultHeader = [(''X-Auth-Token'', '''')],
                                    mg_UserAgent = ''metal-go/0.29.0''\<rparr>\<rparr>"

section \<open>Waiting for a hardware reservation (package equinix)\<close>

text \<open>
  Each call of the status-fetch operation yields an API error or an observation of the
  reservation: its \<^verbatim>\<open>provisionable\<close> flag and the identifier of the device it holds, if
  any. The \<open>n\<close>-th call is answered by \<open>fetch n\<close>, as the handlers of
  \<^verbatim>\<open>Test_waitUntilReservationProvisionable\<close> answer by a call counter; \<open>ctx n\<close> is what the
  context's \<^verbatim>\<open>Err()\<close> returns at the top of tick \<open>n\<close>. Durations are milliseconds.
\<close>

datatype observation = Observation (provisionable: bool) (device_id: "string option")

datatype poll_error =
    ContextError ctx_error
  | FetchFailed string
  | NeverReachedTarget string observation

text \<open>
  Modelled from the spec: \<^verbatim>\<open>waitUntilReservationProvisionable\<close> is not among the sources,
  only its test is. The loop follows section 4.1 of the specification: every tick
  checks the cancellation signal, fetches the status, and either ends or sleeps for the
  polling interval; once the time slept exceeds the maximum wait the call fails with
  the error that names the reservation and the last observation; a failed fetch ends
  the call with its error. The optional stabilization re-check of rule (a) is not
  taken: the test's \<^verbatim>\<open>provisionable\<close> handler reports the flag once and false afterwards,
  and the call must succeed. The judgement of one observation follows the test, which
  marks each response with the expected reaction: \<^verbatim>\<open>{"instanceId", false}\<close> "should
  retry", \<^verbatim>\<open>{"", true}\<close> and \<^verbatim>\<open>{"new instance id", false}\<close> "should return success"
  (both cases have \<^verbatim>\<open>wantErr: false\<close>). So an observation reaches the target when the
  reservation is provisionable or holds a device other than the awaited instance; an
  empty identifier names no device.
\<close>

definition reprovisioned :: "string \<Rightarrow> observation \<Rightarrow> bool" where
  "reprovisioned instanceId obs =
     (case device_id obs of
        Some deviceId \<Rightarrow> deviceId \<noteq> [] \<and> deviceId \<noteq> instanceId
      | None \<Rightarrow> False)"

definition targetReached :: "string \<Rightarrow> observation \<Rightarrow> bool" where
  "targetReached instanceId obs = (provisionable obs \<or> reprovisioned instanceId obs)"

text \<open>A tick sleeps for the polling interval, and for one millisecond at least.\<close>

definition tick :: "nat \<Rightarrow> nat" where
  "tick delay = max 1 delay"

function pollLoop ::
  "(nat \<Rightarrow> ctx_error option) \<Rightarrow> (nat \<Rightarrow> string + observation) \<Rightarrow> string \<Rightarrow> string
     \<Rightarrow> nat \<Rightarrow> nat \<Rightarrow> nat \<Rightarrow> nat \<Rightarrow> poll_error option \<times> nat"
where
  "pollLoop ctx fetch reservationId instanceId delay timeout n elapsed =
     (case ctx n of
        Some ce \<Rightarrow> (Some (ContextError ce), n)
      | None \<Rightarrow>
          (case fetch n of
             Inl e \<Rightarrow> (Some (FetchFailed e), Suc n)
           | Inr obs \<Rightarrow>
               if targetReached instanceId obs then (None, Suc n)
               else if elapsed + tick delay > timeout
                 then (Some (NeverReachedTarget reservationId obs), Suc n)
               else pollLoop ctx fetch reservationId instanceId delay timeout (Suc n)
                      (elapsed + tick delay)))"
  by pat_completeness auto
termination
  by (relation "measure (\<lambda>(ctx, fetch, rid, iid, delay, timeout, n, elapsed). Suc timeout - elapsed)")
     (auto simp: tick_def)

text \<open>
  The call itself returns the error (\<open>None\<close> is nil); \<open>fetchesMade\<close> counts the calls of
  the status-fetch operation until it returns. The last argument is the stabilization
  duration.
\<close>

definition waitUntilReservationProvisionable ::
  "(nat \<Rightarrow> ctx_error option) \<Rightarrow> (nat \<Rightarrow> string + observation) \<Rightarrow> string \<Rightarrow> string
     \<Rightarrow> nat \<Rightarrow> nat \<Rightarrow> nat \<Rightarrow> poll_error option"
where
  "waitUntilReservationProvisionable ctx fetch reservationId instanceId delay timeout minTimeout =
     fst (pollLoop ctx fetch reservationId instanceId delay timeout 0 0)"

definition fetchesMade ::
  "(nat \<Rightarrow> ctx_error option) \<Rightarrow> (nat \<Rightarrow> string + observation) \<Rightarrow> string \<Rightarrow> string
     \<Rightarrow> nat \<Rightarrow> nat \<Rightarrow> nat \<Rightarrow> nat"
where
  "fetchesMade ctx fetch reservationId instanceId delay timeout minTimeout =
     snd (pollLoop ctx fetch reservationId instanceId delay timeout 0 0)"

text \<open>An observation after which the poller goes on: no error, and the target not reached.\<close>

definition pending :: "string \<Rightarrow> string + observation \<Rightarrow> bool" where
  "pending instanceId r = (case r of Inl e \<Rightarrow> False | Inr obs \<Rightarrow> \<not> targetReached instanceId obs)"

subsection \<open>The handlers of the test\<close>

text \<open>
  \<^verbatim>\<open>context.Background()\<close> is never cancelled. The handlers answer from a map indexed by
  the call counter; past its entries the map yields the zero value, an empty identifier
  and \<^verbatim>\<open>false\<close>. \<open>alternatingHandler\<close> is the sequence of the specification's scenario,
  two observations repeated for ever.
\<close>

definition Background :: "nat \<Rightarrow> ctx_error option" where
  "Background n = None"

definition provisionableHandler :: "nat \<Rightarrow> string + observation" where
  "provisionableHandler invoked =
     (if invoked = 0 then Inr (Observation False (Some ''instanceId''))
      else if invoked = 1 then Inr (Observation True (Some ''''))
      else Inr (Observation False (Some '''')))"




section \<open>Properties of the schema mappers\<close>

lemma appendBandwidths_append:
  "appendBandwidths mapped bs = mapped @ map (\<lambda>b. Some (sint b)) bs"
  by (induction bs arbitrary: mapped) simp_all

lemma tokenFields_step:
  assumes "tokenFields e = Some (t, u)"
  shows "serviceTokenLoop m (e # rest) =
           (if t \<noteq> '''' then
              if t \<noteq> ''VC_TOKEN'' then Err (invalidServiceTokenType t)
              else serviceTokenLoop \<lparr>Type' = Some t, Uuid = u\<rparr> rest
            else serviceTokenLoop \<lparr>Type' = None, Uuid = u\<rparr> rest)"
  using assms
  by (auto simp: tokenFields_def split: iface.splits option.splits)

lemma serviceTokenLoop_error_iff:
  "wellTyped xs \<Longrightarrow>
     (\<exists>msg. serviceTokenLoop m xs = Err msg) \<longleftrightarrow> (\<exists>e \<in> set xs. badType e)"
proof (induction xs arbitrary: m)
  case Nil
  then show ?case by simp
next
  case (Cons e rest)
  from Cons.prems obtain t u where tu: "tokenFields e = Some (t, u)" and wt: "wellTyped rest"
    by (auto simp: wellTyped_def)
  have et: "elemType e = t" using tu by (simp add: elemType_def)
  show ?case
  proof (cases "t \<noteq> '''' \<and> t \<noteq> ''VC_TOKEN''")
    case True
    then show ?thesis
      using et tokenFields_step [OF tu, of m rest]
      by (simp add: badType_def del: serviceTokenLoop.simps)
  next
    case False
    then have nb: "\<not> badType e" using et by (simp add: badType_def)
    from False show ?thesis
      using nb Cons.IH [OF wt] tokenFields_step [OF tu, of m rest]
      by (auto simp del: serviceTokenLoop.simps)
  qed
qed

lemma serviceTokenLoop_last:
  "wellTyped xs \<Longrightarrow> \<forall>e \<in> set xs. \<not> badType e \<Longrightarrow>
     serviceTokenLoop m xs = Ok (if xs = [] then m else tokenOf (last xs))"
proof (induction xs arbitrary: m)
  case Nil
  then show ?case by simp
next
  case (Cons e rest)
  from Cons.prems obtain t u where tu: "tokenFields e = Some (t, u)" and wt: "wellTyped rest"
    by (auto simp: wellTyped_def)
  have et: "elemType e = t" using tu by (simp add: elemType_def)
  from Cons.prems have ok: "t = '''' \<or> t = ''VC_TOKEN''" and okr: "\<forall>e \<in> set rest. \<not> badType e"
    using et by (auto simp: badType_def)
  have tok: "tokenOf e = \<lparr>Type' = (if t = '''' then None else Some t), Uuid = u\<rparr>"
    using tu by (simp add: tokenOf_def)
  show ?case
    using ok tok Cons.IH [OF wt okr] tokenFields_step [OF tu, of m rest]
    by (auto simp del: serviceTokenLoop.simps)
qed

text \<open>
  C8. On a list whose elements all carry string-valued \<open>type\<close> and \<open>uuid\<close> entries,
  \<open>serviceTokenToFabric\<close> returns an error exactly when some element has a non-empty
  type other than \<open>VC_TOKEN\<close>; when no element does, it returns the service token of the
  last element (the empty service token for the empty list), whose \<open>Type'\<close> is set only
  when that element's type is non-empty.
\<close>

theorem serviceTokenToFabric_spec:
  assumes "wellTyped xs"
  shows "((\<exists>msg. serviceTokenToFabric xs = Err msg) \<longleftrightarrow> (\<exists>e \<in> set xs. badType e))
       \<and> ((\<forall>e \<in> set xs. elemType e = '''' \<or> elemType e = ''VC_TOKEN'') \<longrightarrow>
            serviceTokenToFabric xs = Ok (if xs = [] then emptyServiceToken else tokenOf (last xs))
          \<and> (xs \<noteq> [] \<longrightarrow> (Type' (tokenOf (last xs)) \<noteq> None \<longleftrightarrow> elemType (last xs) \<noteq> '''')))"
proof -
  have a: "(\<exists>msg. serviceTokenToFabric xs = Err msg) \<longleftrightarrow> (\<exists>e \<in> set xs. badType e)"
    unfolding serviceTokenToFabric_def using assms by (rule serviceTokenLoop_error_iff)
  have b: "serviceTokenToFabric xs = Ok (if xs = [] then emptyServiceToken else tokenOf (last xs))"
    if "\<forall>e \<in> set xs. elemType e = '''' \<or> elemType e = ''VC_TOKEN''"
    unfolding serviceTokenToFabric_def
    using assms that by (intro serviceTokenLoop_last) (auto simp: badType_def)
  have c: "Type' (tokenOf (last xs)) \<noteq> None \<longleftrightarrow> elemType (last xs) \<noteq> ''''" if "xs \<noteq> []"
  proof -
    from that have "last xs \<in> set xs" by simp
    with assms obtain t u where "tokenFields (last xs) = Some (t, u)"
      by (auto simp: wellTyped_def list_all_iff)
    then show ?thesis by (simp add: tokenOf_def elemType_def)
  qed
  from a b c show ?thesis by blast
qed

theorem serviceTokenToFabric_spec_witness:
  "wellTyped [VMap [(''type'', VString ''''), (''uuid'', VString ''u1'')],
              VMap [(''type'', VString ''VC_TOKEN''), (''uuid'', VString ''u2'')]]
   \<and> serviceTokenToFabric
       [VMap [(''type'', VString ''''), (''uuid'', VString ''u1'')],
        VMap [(''type'', VString ''VC_TOKEN''), (''uuid'', VString ''u2'')]]
     = Ok \<lparr>Type' = Some ''VC_TOKEN'', Uuid = ''u2''\<rparr>"
proof -
  let ?xs = "[VMap [(''type'', VString ''''), (''uuid'', VString ''u1'')],
              VMap [(''type'', VString ''VC_TOKEN''), (''uuid'', VString ''u2'')]]"
  have w: "wellTyped ?xs" by (simp add: wellTyped_def tokenFields_def)
  have ok: "\<forall>e \<in> set ?xs. elemType e = '''' \<or> elemType e = ''VC_TOKEN''"
    by (simp add: elemType_def tokenFields_def)
  from serviceTokenToFabric_spec [OF w] ok
  have "serviceTokenToFabric ?xs = Ok (if ?xs = [] then emptyServiceToken else tokenOf (last ?xs))"
    by blast
  then show ?thesis using w by (simp add: tokenOf_def tokenFields_def)
qed

text \<open>
  C10. For a non-nil list of \<open>n\<close> supported bandwidths, \<open>supportedBandwidthsToTerra\<close>
  returns a slice of length \<open>2 * n\<close>: \<open>n\<close> nil entries followed by the \<open>n\<close> converted
  values in input order, because the slice is allocated at full length and then
  appended to; for the nil pointer it returns nil.
\<close>

theorem supportedBandwidthsToTerra_doubles:
  "supportedBandwidthsToTerra None = None
   \<and> supportedBandwidthsToTerra (Some bs)
       = Some (replicate (length bs) None @ map (\<lambda>b. Some (sint b)) bs)
   \<and> (case supportedBandwidthsToTerra (Some bs) of
        None \<Rightarrow> False
      | Some r \<Rightarrow> length r = 2 * length bs
          \<and> take (length bs) r = replicate (length bs) None
          \<and> drop (length bs) r = map (\<lambda>b. Some (sint b)) bs)"
  by (simp add: supportedBandwidthsToTerra_def appendBandwidths_append)

section \<open>Properties of the retry policy\<close>

lemma endsWith_iff: "endsWith suf s \<longleftrightarrow> (\<exists>p. s = p @ suf)"
proof
  assume "endsWith suf s"
  then have "s = take (length s - length suf) s @ suf"
    by (metis append_take_drop_id endsWith_def)
  then show "\<exists>p. s = p @ suf" ..
next
  assume "\<exists>p. s = p @ suf"
  then show "endsWith suf s" by (auto simp: endsWith_def)
qed

lemma dropEnd_append: "dropEnd (length suf) (p @ suf) = p"
  by (simp add: dropEnd_def)

lemma takeWhile_rev_stop:
  "\<forall>c \<in> set ds. P c \<Longrightarrow> \<not> P x \<Longrightarrow> takeWhile P (rev ds @ x # ys) = rev ds"
  by (induction ds rule: rev_induct) simp_all

lemma dropWhile_rev_stop:
  "\<forall>c \<in> set ds. P c \<Longrightarrow> \<not> P x \<Longrightarrow> dropWhile P (rev ds @ x # ys) = x # ys"
  by (induction ds rule: rev_induct) simp_all

lemma redirectsErrorRe_MatchString_iff:
  "redirectsErrorRe_MatchString s \<longleftrightarrow>
     (\<exists>p ds. s = p @ ''stopped after '' @ ds @ '' redirects'' \<and> ds \<noteq> [] \<and> (\<forall>c \<in> set ds. isDigit c))"
  (is "?L \<longleftrightarrow> ?R")
proof
  assume ?L
  then obtain s1 where s: "s = s1 @ '' redirects''"
    unfolding redirectsErrorRe_MatchString_def endsWith_iff by blast
  have d: "dropEnd (length '' redirects'') s = s1"
    unfolding s by (rule dropEnd_append)
  define ds where "ds = takeWhile isDigit (rev s1)"
  define r where "r = dropWhile isDigit (rev s1)"
  from \<open>?L\<close> have ne: "ds \<noteq> []" and e: "endsWith ''stopped after '' (rev r)"
    unfolding redirectsErrorRe_MatchString_def d ds_def r_def by (simp_all add: Let_def)
  from e obtain p where p: "rev r = p @ ''stopped after ''"
    unfolding endsWith_iff by blast
  have "rev s1 = ds @ r" by (simp add: ds_def r_def)
  then have "s1 = rev r @ rev ds" by (metis rev_append rev_rev_ident)
  then have "s = p @ ''stopped after '' @ rev ds @ '' redirects''"
    using s p by simp
  moreover have "rev ds \<noteq> []" using ne by simp
  moreover have "\<forall>c \<in> set (rev ds). isDigit c"
    unfolding ds_def using set_takeWhileD by fastforce
  ultimately show ?R by blast
next
  assume ?R
  then obtain p ds where s: "s = p @ ''stopped after '' @ ds @ '' redirects''"
    and ne: "ds \<noteq> []" and dg: "\<forall>c \<in> set ds. isDigit c" by blast
  have s': "s = (p @ ''stopped after '' @ ds) @ '' redirects''" using s by simp
  have e1: "endsWith '' redirects'' s" unfolding endsWith_iff using s' by blast
  have d: "dropEnd (length '' redirects'') s = p @ ''stopped after '' @ ds"
    unfolding s' by (rule dropEnd_append)
  have r: "rev (p @ ''stopped after '' @ ds) = rev ds @ CHR '' '' # rev (p @ ''stopped after'')"
    by simp
  have nd: "\<not> isDigit CHR '' ''" by (simp add: isDigit_def)
  have tw: "takeWhile isDigit (rev (p @ ''stopped after '' @ ds)) = rev ds"
    unfolding r using dg nd by (rule takeWhile_rev_stop)
  have dw: "dropWhile isDigit (rev (p @ ''stopped after '' @ ds)) = CHR '' '' # rev (p @ ''stopped after'')"
    unfolding r using dg nd by (rule dropWhile_rev_stop)
  have "rev (CHR '' '' # rev (p @ ''stopped after'')) = p @ ''stopped after ''" by simp
  then have e2: "endsWith ''stopped after '' (rev (dropWhile isDigit (rev (p @ ''stopped after '' @ ds))))"
    unfolding dw endsWith_iff by blast
  show ?L
    unfolding redirectsErrorRe_MatchString_def d using e1 e2 tw ne by (simp add: Let_def)
qed



section \<open>Properties of the user agent strings\<close>

declare trimLeading.simps [simp del]









lemma joinSpace_two: "joinSpace [a, b] = a @ '' '' @ b"
  by simp

lemma joinSpace_three: "joinSpace [a, b, c] = a @ '' '' @ b @ '' '' @ c"
  by simp







section \<open>Properties of Config.Load\<close>














text \<open>
  A base URL that does not parse makes \<open>Load\<close> panic although a static token is set:
  the error of \<^verbatim>\<open>url.Parse\<close> is dropped in \<open>NewMetalClient\<close>.
\<close>

lemma Load_unparsable_baseURL_panics:
  "onlyStaticToken (sampleConfig\<lparr>BaseURL := '':''\<rparr>)
   \<and> Load sampleWorld (sampleConfig\<lparr>BaseURL := '':''\<rparr>) = Panic"
  by (simp add: onlyStaticToken_def Load_def authenticate_def configureClients_def
                NewMetalClient_def sampleConfig_def sampleWorld_def Let_def)

section \<open>Properties of the project SSH key resource\<close>

lemma HasError_append: "HasError (xs @ ys) \<longleftrightarrow> HasError xs \<or> HasError ys"
  by (simp add: HasError_def)

lemma HasError_AddWarning: "HasError (AddWarning s d ds) \<longleftrightarrow> HasError ds"
  by (simp add: HasError_def AddWarning_def)

lemma HasError_AddError: "HasError (AddError s d ds)"
  by (simp add: HasError_def AddError_def)

lemma Read_after_get:
  assumes "Metalgo meta = Some client"
    and "State_Get api (req_State req) = (ds, state)"
    and "\<not> HasError (Diagnostics resp @ ds)"
    and "FindSSHKeyById api (ID state) = (key, Some e)"
  shows "IsNotFound api (FriendlyError api e) \<Longrightarrow>
           \<exists>m. Read api meta req resp =
             Ok (resp\<lparr>Diagnostics :=
                       AddWarning ''Equinix Metal Project SSHKey not found during refresh''
                         (''[WARN] SSHKey ('' @ ID state @ '') not found, removing from state'')
                         (Diagnostics resp @ ds),
                      State := NullState\<rparr>, m)"
    and "\<not> IsNotFound api (FriendlyError api e) \<Longrightarrow>
           \<exists>m. Read api meta req resp =
             Ok (resp\<lparr>Diagnostics :=
                       AddError (''Failed to get Project SSHKey '' @ ID state)
                         (err_Text (FriendlyError api e)) (Diagnostics resp @ ds)
                       @ fst (parse api state key)\<rparr>, m)"
  using assms
  by (simp_all add: Read_def AddFwModuleToMetalGoUserAgent_def Let_def HasError_append
                    HasError_AddError split: prod.splits)

text \<open>
  C6. When \<open>Read\<close> reaches the vendor API and the call fails: if the error is
  classified as not found, the response carries no error diagnostic, only the added
  warning, and the resource is removed from the state; for every other error the
  response carries an error diagnostic naming the key and the state is left as it was.
\<close>

theorem Read_vendor_error:
  assumes "Metalgo meta \<noteq> None"
    and "State_Get api (req_State req) = (ds, state)"
    and "\<not> HasError (Diagnostics resp @ ds)"
    and "FindSSHKeyById api (ID state) = (key, Some e)"
  shows "(IsNotFound api (FriendlyError api e) \<longrightarrow>
           (\<exists>r m. Read api meta req resp = Ok (r, m)
              \<and> \<not> HasError (Diagnostics r)
              \<and> State r = NullState
              \<and> Diagnostics r = Diagnostics resp @ ds
                   @ [\<lparr>Severity = SeverityWarning,
                       Summary = ''Equinix Metal Project SSHKey not found during refresh'',
                       Detail = ''[WARN] SSHKey ('' @ ID state @ '') not found, removing from state''\<rparr>]))
       \<and> (\<not> IsNotFound api (FriendlyError api e) \<longrightarrow>
           (\<exists>r m. Read api meta req resp = Ok (r, m)
              \<and> HasError (Diagnostics r)
              \<and> \<lparr>Severity = SeverityError,
                  Summary = ''Failed to get Project SSHKey '' @ ID state,
                  Detail = err_Text (FriendlyError api e)\<rparr> \<in> set (Diagnostics r)
              \<and> State r = State resp))"
proof -
  from assms(1) obtain client where c: "Metalgo meta = Some client" by blast
  note r = Read_after_get [OF c assms(2) assms(3) assms(4)]
  have a: "\<exists>r m. Read api meta req resp = Ok (r, m)
              \<and> \<not> HasError (Diagnostics r)
              \<and> State r = NullState
              \<and> Diagnostics r = Diagnostics resp @ ds
                   @ [\<lparr>Severity = SeverityWarning,
                       Summary = ''Equinix Metal Project SSHKey not found during refresh'',
                       Detail = ''[WARN] SSHKey ('' @ ID state @ '') not found, removing from state''\<rparr>]"
    if "IsNotFound api (FriendlyError api e)"
  proof -
    from r(1) [OF that] obtain m where
      "Read api meta req resp =
             Ok (resp\<lparr>Diagnostics :=
                       AddWarning ''Equinix Metal Project SSHKey not found during refresh''
                         (''[WARN] SSHKey ('' @ ID state @ '') not found, removing from state'')
                         (Diagnostics resp @ ds),
                      State := NullState\<rparr>, m)" by blast
    then show ?thesis
      using assms(3) by (simp add: HasError_AddWarning) (simp add: AddWarning_def)
  qed
  have b: "\<exists>r m. Read api meta req resp = Ok (r, m)
              \<and> HasError (Diagnostics r)
              \<and> \<lparr>Severity = SeverityError,
                  Summary = ''Failed to get Project SSHKey '' @ ID state,
                  Detail = err_Text (FriendlyError api e)\<rparr> \<in> set (Diagnostics r)
              \<and> State r = State resp"
    if "\<not> IsNotFound api (FriendlyError api e)"
  proof -
    from r(2) [OF that] obtain m where
      "Read api meta req resp =
             Ok (resp\<lparr>Diagnostics :=
                       AddError (''Failed to get Project SSHKey '' @ ID state)
                         (err_Text (FriendlyError api e)) (Diagnostics resp @ ds)
                       @ fst (parse api state key)\<rparr>, m)" by blast
    then show ?thesis
      by (simp add: HasError_append HasError_AddError) (simp add: AddError_def)
  qed
  from a b show ?thesis by blast
qed

theorem Read_vendor_error_witness:
  "(\<exists>r m. Read (sampleApi (None, Some \<lparr>err_Status = 404, err_Text = ''Not found''\<rparr>) (None, None))
             loadedConfig sampleRequest sampleResponse = Ok (r, m)
         \<and> \<not> HasError (Diagnostics r) \<and> State r = NullState)
   \<and> (\<exists>r m. Read (sampleApi (None, Some \<lparr>err_Status = 500, err_Text = ''Oh snap!''\<rparr>) (None, None))
             loadedConfig sampleRequest sampleResponse = Ok (r, m)
         \<and> HasError (Diagnostics r) \<and> State r = StateValue sampleModel)"
proof -
  let ?nf = "sampleApi (None, Some \<lparr>err_Status = 404, err_Text = ''Not found''\<rparr>) (None, None)"
  let ?oh = "sampleApi (None, Some \<lparr>err_Status = 500, err_Text = ''Oh snap!''\<rparr>) (None, None)"
  have h1: "Metalgo loadedConfig \<noteq> None" by (simp add: loadedConfig_def)
  have h2: "State_Get ?nf (req_State sampleRequest) = ([], sampleModel)"
    by (simp add: sampleApi_def sampleRequest_def)
  have h2': "State_Get ?oh (req_State sampleRequest) = ([], sampleModel)"
    by (simp add: sampleApi_def sampleRequest_def)
  have h3: "\<not> HasError (Diagnostics sampleResponse @ [])"
    by (simp add: sampleResponse_def HasError_def)
  have h4: "FindSSHKeyById ?nf (ID sampleModel) = (None, Some \<lparr>err_Status = 404, err_Text = ''Not found''\<rparr>)"
    by (simp add: sampleApi_def)
  have h4': "FindSSHKeyById ?oh (ID sampleModel) = (None, Some \<lparr>err_Status = 500, err_Text = ''Oh snap!''\<rparr>)"
    by (simp add: sampleApi_def)
  have h5: "IsNotFound ?nf (FriendlyError ?nf \<lparr>err_Status = 404, err_Text = ''Not found''\<rparr>)"
    by (simp add: sampleApi_def)
  have h5': "\<not> IsNotFound ?oh (FriendlyError ?oh \<lparr>err_Status = 500, err_Text = ''Oh snap!''\<rparr>)"
    by (simp add: sampleApi_def)
  have s: "State sampleResponse = StateValue sampleModel" by (simp add: sampleResponse_def)
  from Read_vendor_error [OF h1 h2 h3 h4] h5
  have a: "\<exists>r m. Read ?nf loadedConfig sampleRequest sampleResponse = Ok (r, m)
         \<and> \<not> HasError (Diagnostics r) \<and> State r = NullState" by blast
  from Read_vendor_error [OF h1 h2' h3 h4'] h5' s
  have b: "\<exists>r m. Read ?oh loadedConfig sampleRequest sampleResponse = Ok (r, m)
         \<and> HasError (Diagnostics r) \<and> State r = StateValue sampleModel" by metis
  from a b show ?thesis by blast
qed




section \<open>Properties of the poller\<close>

declare pollLoop.simps [simp del]

lemma pollLoop_pending:
  assumes "ctx n = None" and "pending iid (fetch n)" and "elapsed + tick delay \<le> timeout"
  shows "pollLoop ctx fetch rid iid delay timeout n elapsed
         = pollLoop ctx fetch rid iid delay timeout (Suc n) (elapsed + tick delay)"
  using assms
  by (subst pollLoop.simps) (auto simp: pending_def split: sum.splits)


lemma pollLoop_target:
  assumes "ctx n = None" and "fetch n = Inr obs" and "targetReached iid obs"
  shows "pollLoop ctx fetch rid iid delay timeout n elapsed = (None, Suc n)"
  using assms by (subst pollLoop.simps) simp



lemma pollLoop_second_observation:
  assumes "ctx 0 = None" and "ctx 1 = None" and "pending iid (fetch 0)"
    and "fetch 1 = Inr obs" and "targetReached iid obs" and "tick delay \<le> timeout"
  shows "pollLoop ctx fetch rid iid delay timeout 0 0 = (None, 2)"
proof -
  have "pollLoop ctx fetch rid iid delay timeout 0 0
        = pollLoop ctx fetch rid iid delay timeout (Suc 0) (0 + tick delay)"
    using assms(1,3,6) by (intro pollLoop_pending) simp_all
  also have "\<dots> = (None, Suc (Suc 0))"
    using assms(2,4,5) by (intro pollLoop_target) simp_all
  finally show ?thesis by (simp add: numeral_2_eq_2)
qed


text \<open>
  C5. When the first observation reports the reservation provisionable, the poller
  returns success on that observation: one fetch, no re-check and no further tick. On
  the answers of the test's \<^verbatim>\<open>provisionable\<close> case (not provisionable, then provisionable
  with an empty identifier) it returns success on the second observation.
\<close>

theorem waitUntilReservationProvisionable_immediate:
  "(ctx 0 = None \<and> fetch 0 = Inr obs \<and> provisionable obs \<longrightarrow>
      waitUntilReservationProvisionable ctx fetch rid iid delay timeout minTimeout = None
      \<and> fetchesMade ctx fetch rid iid delay timeout minTimeout = 1)
   \<and> waitUntilReservationProvisionable Background provisionableHandler
        ''reservationId'' ''instanceId'' 50 1000 50 = None
   \<and> fetchesMade Background provisionableHandler ''reservationId'' ''instanceId'' 50 1000 50 = 2"
proof -
  have a: "pollLoop ctx fetch rid iid delay timeout 0 0 = (None, Suc 0)"
    if "ctx 0 = None" and "fetch 0 = Inr obs" and "provisionable obs"
    using that pollLoop_target [of ctx 0 fetch obs iid rid delay timeout 0]
    by (simp add: targetReached_def)
  have b: "pollLoop Background provisionableHandler ''reservationId'' ''instanceId'' 50 1000 0 0
           = (None, 2)"
    by (rule pollLoop_second_observation [where obs = "Observation True (Some '''')"])
       (simp_all add: Background_def pending_def provisionableHandler_def targetReached_def
                      reprovisioned_def tick_def)
  from a b show ?thesis
    by (simp add: waitUntilReservationProvisionable_def fetchesMade_def)
qed

theorem waitUntilReservationProvisionable_immediate_witness:
  "Background 0 = None \<and> provisionable (Observation True None)
   \<and> waitUntilReservationProvisionable Background (\<lambda>n. Inr (Observation True None))
        ''reservationId'' ''instanceId'' 50 1000 50 = None
   \<and> fetchesMade Background (\<lambda>n. Inr (Observation True None))
        ''reservationId'' ''instanceId'' 50 1000 50 = 1"
proof -
  have h1: "Background 0 = None" by (simp add: Background_def)
  have h2: "(\<lambda>n. Inr (Observation True None)) (0::nat) = (Inr (Observation True None) :: string + observation)"
    by simp
  have h3: "provisionable (Observation True None)" by simp
  from waitUntilReservationProvisionable_immediate
         [of Background "\<lambda>n. Inr (Observation True None)" "Observation True None"
             "''reservationId''" "''instanceId''" 50 1000 50] h1 h2 h3
  show ?thesis by simp
qed







end
